theory Spec2Isabelle
  imports Main "HOL-Library.Char_ord" "HOL-Library.List_Lexorder" "HOL-Library.Sublist"
    "HOL-Library.Multiset"
begin

section \<open>Values, exceptions and the file system\<close>

text \<open>
  Python \<open>str\<close> values are kept as their UTF-8 encoding, so \<open>name.encode()\<close> is the
  identity and \<open>sorted\<close> on strings is the lexicographic order of \<open>char list\<close>
  (UTF-8 keeps the code-point order).
\<close>

type_synonym bytes = string

text \<open>The exception classes the three modules can meet; all derive from \<open>Exception\<close>.\<close>

datatype exn =
    JSONDecodeError
  | UnicodeDecodeError
  | AttributeError
  | KeyError
  | IsADirectoryError
  | NotADirectoryError
  | EnvironmentError
  | OtherError string

text \<open>
  A directory entry: a regular file with its bytes, a directory with its entries in the
  order the operating system enumerates them, or a symbolic link whose target is missing.
\<close>

datatype node = File bytes | Dir "(string \<times> node) list" | Dangling

text \<open>
  \<open>vectorstores/<subject>_faiss/\<close>: the two index files \<open>FAISS.save_local\<close> writes and
  the metadata file; \<open>None\<close> is a file that does not exist.
\<close>

record store_dir =
  index_faiss :: "bytes option"
  index_pkl :: "bytes option"
  metadata_file :: "bytes option"

record disk =
  curriculum_root :: "node option"
  vectorstore_root :: "string \<Rightarrow> store_dir"

definition no_store :: store_dir where
  "no_store = \<lparr>index_faiss = None, index_pkl = None, metadata_file = None\<rparr>"

text \<open>\<open>Path(CURRICULUM_ROOT) / subject_name\<close>, for a subject that is one path component.\<close>

definition subject_path :: "disk \<Rightarrow> string \<Rightarrow> node option" where
  "subject_path d subject_name =
     (case curriculum_root d of
        Some (Dir entries) \<Rightarrow> map_of entries subject_name
      | _ \<Rightarrow> None)"

fun is_dir :: "node option \<Rightarrow> bool" where
  "is_dir (Some (Dir _)) = True"
| "is_dir _ = False"

section \<open>JSON values\<close>

datatype json =
    JNull
  | JBool bool
  | JInt int
  | JStr string
  | JArr "json list"
  | JObj "(string \<times> json) list"

text \<open>\<open>d.get(key)\<close>: the value, \<open>None\<close> for a missing key; only a dict has \<open>get\<close>.\<close>

fun dict_get :: "json \<Rightarrow> string \<Rightarrow> exn + json" where
  "dict_get (JObj kvs) k = Inr (case map_of kvs k of None \<Rightarrow> JNull | Some v \<Rightarrow> v)"
| "dict_get _ k = Inl AttributeError"

text \<open>Python truthiness of a decoded JSON value (\<open>if metadata:\<close>).\<close>

fun truthy :: "json \<Rightarrow> bool" where
  "truthy JNull = False"
| "truthy (JBool b) = b"
| "truthy (JInt i) = (i \<noteq> 0)"
| "truthy (JStr s) = (s \<noteq> [])"
| "truthy (JArr xs) = (xs \<noteq> [])"
| "truthy (JObj kvs) = (kvs \<noteq> [])"

section \<open>Reading a text file: strict UTF-8\<close>

text \<open>
  \<open>open(path, 'r')\<close> decodes with the locale's encoding, UTF-8 here, and the \<open>strict\<close>
  error handler: a byte sequence that is not well-formed UTF-8 raises
  \<open>UnicodeDecodeError\<close> from \<open>f.read()\<close>. The translation of line ends is left to
  the parser, for which they are white space.
\<close>

definition between :: "nat \<Rightarrow> char \<Rightarrow> nat \<Rightarrow> bool" where
  "between lo c hi = (lo \<le> of_char c \<and> of_char c \<le> hi)"

definition cont :: "char \<Rightarrow> bool" where
  "cont c = between 0x80 c 0xBF"

fun utf8_tail :: "nat \<Rightarrow> bytes \<Rightarrow> bytes option" where
  "utf8_tail 0 bs = Some bs"
| "utf8_tail (Suc n) [] = None"
| "utf8_tail (Suc n) (b # bs) = (if cont b then utf8_tail n bs else None)"

lemma utf8_tail_length: "utf8_tail n bs = Some r \<Longrightarrow> length r \<le> length bs"
proof (induction n bs rule: utf8_tail.induct)
  case (3 n b bs)
  then show ?case by (auto split: if_splits)
qed auto

text \<open>The rest of the input after one well-formed character, or \<open>None\<close>.\<close>

fun utf8_char :: "bytes \<Rightarrow> bytes option" where
  "utf8_char [] = None"
| "utf8_char [b] = (if between 0 b 0x7F then Some [] else None)"
| "utf8_char (b # c # bs) =
     (if between 0 b 0x7F then Some (c # bs)
      else if between 0xC2 b 0xDF then utf8_tail 1 (c # bs)
      else if between 0xE0 b 0xE0 then (if between 0xA0 c 0xBF then utf8_tail 1 bs else None)
      else if between 0xED b 0xED then (if between 0x80 c 0x9F then utf8_tail 1 bs else None)
      else if between 0xE1 b 0xEF then utf8_tail 2 (c # bs)
      else if between 0xF0 b 0xF0 then (if between 0x90 c 0xBF then utf8_tail 2 bs else None)
      else if between 0xF1 b 0xF3 then utf8_tail 3 (c # bs)
      else if between 0xF4 b 0xF4 then (if between 0x80 c 0x8F then utf8_tail 2 bs else None)
      else None)"

lemma utf8_char_shorter: "utf8_char bs = Some r \<Longrightarrow> length r < length bs"
proof (induction bs rule: utf8_char.induct)
  case (3 b c bs)
  then show ?case
    by (auto split: if_splits dest!: utf8_tail_length)
qed (auto split: if_splits)

function utf8_valid :: "bytes \<Rightarrow> bool" where
  "utf8_valid bs =
     (if bs = [] then True
      else (case utf8_char bs of None \<Rightarrow> False | Some r \<Rightarrow> utf8_valid r))"
  by pat_completeness auto
termination
  by (relation "measure length") (auto dest: utf8_char_shorter)

declare utf8_valid.simps [simp del]

definition read_text :: "bytes \<Rightarrow> exn + string" where
  "read_text bs = (if utf8_valid bs then Inr bs else Inl UnicodeDecodeError)"

section \<open>Content Hasher (\<open>get_folder_hash\<close>)\<close>

text \<open>\<open>fnmatch(name, "*.pdf")\<close> on a case-sensitive file system.\<close>

definition fnmatch_pdf :: "string \<Rightarrow> bool" where
  "fnmatch_pdf name = suffix ''.pdf'' name"

text \<open>
  \<open>glob.glob(os.path.join(folder_path, "*.pdf"))\<close>: the entries of the folder whose name
  matches, in enumeration order; the \<open>glob\<close> module never matches a name that starts with
  a dot against a pattern that does not. A folder that is missing or not a directory has
  no match.
\<close>

definition hidden :: "string \<Rightarrow> bool" where
  "hidden name = (case name of [] \<Rightarrow> False | c # _ \<Rightarrow> c = CHR ''.'')"

fun glob_pdf :: "node option \<Rightarrow> (string \<times> node) list" where
  "glob_pdf (Some (Dir entries)) =
     filter (\<lambda>(name, n). fnmatch_pdf name \<and> \<not> hidden name) entries"
| "glob_pdf _ = []"

text \<open>\<open>iter(lambda: f.read(4096), b"")\<close>: the chunks read until the empty one.\<close>

function read_chunks :: "nat \<Rightarrow> bytes \<Rightarrow> bytes list" where
  "read_chunks n bs =
     (if n = 0 \<or> bs = [] then [] else take n bs # read_chunks n (drop n bs))"
  by pat_completeness auto
termination
  by (relation "measure (\<lambda>(n, bs). length bs)") auto

declare read_chunks.simps [simp del]

text \<open>
  The state of a \<open>hashlib\<close> object is the bytes it has absorbed: \<open>update\<close> appends, and
  \<open>hexdigest\<close> applies the digest function to all of them.
\<close>

definition update :: "bytes \<Rightarrow> bytes \<Rightarrow> bytes" where
  "update hash_md5 chunk = hash_md5 @ chunk"

text \<open>
  One turn of the loop over \<open>pdf_files\<close>. A directory named \<open>*.pdf\<close> exists and cannot
  be opened; a dangling link does not exist, and only its name is hashed.
\<close>

fun hash_entry :: "bytes \<Rightarrow> string \<times> node \<Rightarrow> exn + bytes" where
  "hash_entry hash_md5 (name, File content) =
     Inr (foldl update (update hash_md5 name) (read_chunks 4096 content))"
| "hash_entry hash_md5 (name, Dir _) = Inl IsADirectoryError"
| "hash_entry hash_md5 (name, Dangling) = Inr (update hash_md5 name)"

fun hash_entries :: "bytes \<Rightarrow> (string \<times> node) list \<Rightarrow> exn + bytes" where
  "hash_entries hash_md5 [] = Inr hash_md5"
| "hash_entries hash_md5 (e # es) =
     (case hash_entry hash_md5 e of
        Inl err \<Rightarrow> Inl err
      | Inr hash_md5' \<Rightarrow> hash_entries hash_md5' es)"

text \<open>
  The bytes given to the hash object by the time \<open>hexdigest\<close> is called. All paths share
  the folder prefix, so sorting the paths sorts the names.
\<close>

definition hashed_bytes :: "node option \<Rightarrow> exn + bytes" where
  "hashed_bytes folder = hash_entries [] (sort_key fst (glob_pdf folder))"

text \<open>\<open>md5\<close> is the digest function of \<open>hashlib.md5\<close>, from bytes to the hex string.\<close>

definition get_folder_hash :: "(bytes \<Rightarrow> string) \<Rightarrow> node option \<Rightarrow> exn + string" where
  "get_folder_hash md5 folder =
     (case hashed_bytes folder of Inl err \<Rightarrow> Inl err | Inr bs \<Rightarrow> Inr (md5 bs))"

section \<open>External collaborators\<close>

datatype document = Document (page_content: string) (source: string)

datatype embeddings = HuggingFaceEmbeddings string

datatype vectorstore = FAISS "document list"

datatype llm = ChatHuggingFace string

datatype chain = LLMChain llm

datatype retriever = VectorStoreRetriever vectorstore nat

text \<open>
  What \<open>vectorstore.save_local\<close> did: both index files written, or an exception and
  whatever is in the two files by then.
\<close>

datatype save_outcome = Saved bytes bytes | SaveFailed exn "bytes option" "bytes option"

text \<open>
  What \<open>open(path, 'w')\<close> with \<open>json.dump\<close> did: the text written, or an exception and
  whatever is in the file by then.
\<close>

datatype write_outcome = Written | WriteFailed exn "bytes option"

text \<open>
  The libraries and services the modules call, as functions the model is parametric in:
  \<open>hashlib\<close>, \<open>json\<close>, \<open>datetime\<close>, the PDF loader, the text splitter, the embedding
  model, FAISS, the file system's failures, the environment variable holding the token,
  the language-model endpoint, the chain and the retriever.
\<close>

record env =
  hexdigest :: "bytes \<Rightarrow> string"
  json_loads :: "string \<Rightarrow> exn + json"
  json_dumps :: "json \<Rightarrow> bytes"
  now_isoformat :: string
  pdf_load :: "string \<Rightarrow> node \<Rightarrow> exn + document list"
  split_documents :: "document list \<Rightarrow> exn + document list"
  create_embeddings :: "exn + embeddings"
  from_documents :: "document list \<Rightarrow> embeddings \<Rightarrow> exn + vectorstore"
  mkdir :: "string \<Rightarrow> exn option"
  save_local :: "vectorstore \<Rightarrow> bytes option \<Rightarrow> bytes option \<Rightarrow> save_outcome"
  write_text :: "string \<Rightarrow> bytes \<Rightarrow> bytes option \<Rightarrow> write_outcome"
  load_local :: "bytes option \<Rightarrow> bytes option \<Rightarrow> embeddings \<Rightarrow> exn + vectorstore"
  getenv_token :: "string option"
  new_llm :: "string \<Rightarrow> exn + llm"
  new_llm_chain :: "llm \<Rightarrow> exn + chain"
  as_retriever :: "vectorstore \<Rightarrow> nat \<Rightarrow> exn + retriever"
  get_relevant_documents :: "retriever \<Rightarrow> string \<Rightarrow> exn + document list"
  invoke :: "chain \<Rightarrow> (string \<times> string) list \<Rightarrow> exn + (string \<times> string) list"

section \<open>Cache Metadata Store\<close>

text \<open>\<open>json.load(f)\<close> on a file opened in text mode: decode, then parse.\<close>

definition json_load :: "env \<Rightarrow> bytes \<Rightarrow> exn + json" where
  "json_load E bs = (case read_text bs of Inl err \<Rightarrow> Inl err | Inr text \<Rightarrow> json_loads E text)"

definition get_metadata :: "env \<Rightarrow> disk \<Rightarrow> string \<Rightarrow> exn + json" where
  "get_metadata E d subject_name =
     (case metadata_file (vectorstore_root d subject_name) of
        None \<Rightarrow> Inr (JObj [])
      | Some bs \<Rightarrow>
         (case json_load E bs of
            Inl err \<Rightarrow> if err = JSONDecodeError then Inr (JObj []) else Inl err
          | Inr j \<Rightarrow> Inr j))"

definition put_index :: "disk \<Rightarrow> string \<Rightarrow> bytes option \<Rightarrow> bytes option \<Rightarrow> disk" where
  "put_index d subject_name f p =
     d\<lparr>vectorstore_root := (vectorstore_root d)
        (subject_name := (vectorstore_root d subject_name)\<lparr>index_faiss := f, index_pkl := p\<rparr>)\<rparr>"

definition put_metadata :: "disk \<Rightarrow> string \<Rightarrow> bytes option \<Rightarrow> disk" where
  "put_metadata d subject_name m =
     d\<lparr>vectorstore_root := (vectorstore_root d)
        (subject_name := (vectorstore_root d subject_name)\<lparr>metadata_file := m\<rparr>)\<rparr>"

definition save_metadata ::
  "env \<Rightarrow> disk \<Rightarrow> string \<Rightarrow> string \<Rightarrow> nat \<Rightarrow> nat \<Rightarrow> (exn + json) \<times> disk" where
  "save_metadata E d subject_name files_hash num_documents num_chunks =
     (let metadata = JObj [(''file_hash'', JStr files_hash),
                           (''num_documents'', JInt (int num_documents)),
                           (''num_chunks'', JInt (int num_chunks)),
                           (''last_build'', JStr (now_isoformat E))]
      in case mkdir E subject_name of
           Some err \<Rightarrow> (Inl err, d)
         | None \<Rightarrow>
            (case write_text E subject_name (json_dumps E metadata)
                    (metadata_file (vectorstore_root d subject_name)) of
               WriteFailed err left \<Rightarrow> (Inl err, put_metadata d subject_name left)
             | Written \<Rightarrow>
                 (Inr metadata, put_metadata d subject_name (Some (json_dumps E metadata)))))"

definition should_rebuild_vectorstore :: "env \<Rightarrow> disk \<Rightarrow> string \<Rightarrow> exn + bool" where
  "should_rebuild_vectorstore E d subject_name =
     (if index_faiss (vectorstore_root d subject_name) = None
         \<or> index_pkl (vectorstore_root d subject_name) = None
      then Inr True
      else
        (case get_folder_hash (hexdigest E) (subject_path d subject_name) of
           Inl err \<Rightarrow> Inl err
         | Inr current_hash \<Rightarrow>
            (case get_metadata E d subject_name of
               Inl err \<Rightarrow> Inl err
             | Inr metadata \<Rightarrow>
                (case dict_get metadata ''file_hash'' of
                   Inl err \<Rightarrow> Inl err
                 | Inr stored \<Rightarrow> Inr (stored \<noteq> JStr current_hash)))))"

section \<open>Vectorstore Builder\<close>

text \<open>The loop over \<open>pdf_files\<close>: a file the loader cannot read is skipped.\<close>

fun load_pdfs :: "env \<Rightarrow> document list \<Rightarrow> (string \<times> node) list \<Rightarrow> document list" where
  "load_pdfs E all_documents [] = all_documents"
| "load_pdfs E all_documents ((name, n) # pdf_files) =
     (case pdf_load E name n of
        Inl err \<Rightarrow> load_pdfs E all_documents pdf_files
      | Inr documents \<Rightarrow> load_pdfs E (all_documents @ documents) pdf_files)"

text \<open>
  The \<open>try\<close> block of \<open>build_vectorstore\<close>: the exception that leaves it, or the
  vectorstore and embeddings, each with the disk as it is by then.
\<close>

definition build_try ::
  "env \<Rightarrow> disk \<Rightarrow> string \<Rightarrow> document list \<Rightarrow> document list
     \<Rightarrow> (exn + vectorstore \<times> embeddings) \<times> disk" where
  "build_try E d subject_name all_documents text_chunks =
     (case create_embeddings E of
        Inl err \<Rightarrow> (Inl err, d)
      | Inr emb \<Rightarrow>
         (case from_documents E text_chunks emb of
            Inl err \<Rightarrow> (Inl err, d)
          | Inr vs \<Rightarrow>
             (case mkdir E subject_name of
                Some err \<Rightarrow> (Inl err, d)
              | None \<Rightarrow>
                 (case save_local E vs (index_faiss (vectorstore_root d subject_name))
                         (index_pkl (vectorstore_root d subject_name)) of
                    SaveFailed err f p \<Rightarrow> (Inl err, put_index d subject_name f p)
                  | Saved f p \<Rightarrow>
                     (let d1 = put_index d subject_name (Some f) (Some p) in
                      case get_folder_hash (hexdigest E) (subject_path d subject_name) of
                        Inl err \<Rightarrow> (Inl err, d1)
                      | Inr files_hash \<Rightarrow>
                         (case save_metadata E d1 subject_name files_hash
                                 (length all_documents) (length text_chunks) of
                            (Inl err, d2) \<Rightarrow> (Inl err, d2)
                          | (Inr metadata, d2) \<Rightarrow> (Inr (vs, emb), d2)))))))"

text \<open>
  The result is \<open>None\<close> for the pair \<open>(None, None)\<close>; \<open>Inl\<close> is an exception that leaves
  the function (the splitter is called outside the \<open>try\<close>).
\<close>

definition build_vectorstore ::
  "env \<Rightarrow> disk \<Rightarrow> string \<Rightarrow> (exn + (vectorstore \<times> embeddings) option) \<times> disk" where
  "build_vectorstore E d subject_name =
     (let subject_folder = subject_path d subject_name in
      if \<not> is_dir subject_folder then (Inr None, d)
      else
        (let all_documents = load_pdfs E [] (sort_key fst (glob_pdf subject_folder)) in
         if all_documents = [] then (Inr None, d)
         else
           (case split_documents E all_documents of
              Inl err \<Rightarrow> (Inl err, d)
            | Inr text_chunks \<Rightarrow>
               (case build_try E d subject_name all_documents text_chunks of
                  (Inl err, d') \<Rightarrow> (Inr None, d')
                | (Inr r, d') \<Rightarrow> (Inr (Some r), d')))))"

section \<open>Vectorstore Loader and Cache Gate\<close>

text \<open>The \<open>try\<close> block of \<open>load_vectorstore\<close>; it writes nothing.\<close>

definition load_try :: "env \<Rightarrow> disk \<Rightarrow> string \<Rightarrow> exn + vectorstore \<times> embeddings" where
  "load_try E d subject_name =
     (case create_embeddings E of
        Inl err \<Rightarrow> Inl err
      | Inr emb \<Rightarrow>
         (case load_local E (index_faiss (vectorstore_root d subject_name))
                 (index_pkl (vectorstore_root d subject_name)) emb of
            Inl err \<Rightarrow> Inl err
          | Inr vs \<Rightarrow>
             (case get_metadata E d subject_name of
                Inl err \<Rightarrow> Inl err
              | Inr metadata \<Rightarrow>
                 if truthy metadata then
                   (case dict_get metadata ''num_chunks'' of
                      Inl err \<Rightarrow> Inl err
                    | Inr num_chunks \<Rightarrow>
                       (case dict_get metadata ''last_build'' of
                          Inl err \<Rightarrow> Inl err
                        | Inr last_build \<Rightarrow> Inr (vs, emb)))
                 else Inr (vs, emb))))"

definition load_vectorstore ::
  "env \<Rightarrow> disk \<Rightarrow> string \<Rightarrow> (exn + (vectorstore \<times> embeddings) option) \<times> disk" where
  "load_vectorstore E d subject_name =
     (if index_faiss (vectorstore_root d subject_name) = None
      then build_vectorstore E d subject_name
      else
        (case load_try E d subject_name of
           Inl err \<Rightarrow> build_vectorstore E d subject_name
         | Inr r \<Rightarrow> (Inr (Some r), d)))"

section \<open>Process state\<close>

text \<open>A component dictionary; \<open>None\<close> in a field is Python's \<open>None\<close>.\<close>

record components =
  retriever :: "retriever option"
  llm_chain :: "chain option"

record state =
  disk :: disk
  GLOBAL_VECTORSTORES :: "string \<rightharpoonup> vectorstore"
  LLM :: "llm option"
  RAG_COMPONENTS :: "string \<rightharpoonup> components"

text \<open>
  The first test, \<open>subject_name in GLOBAL_VECTORSTORES and not force_rebuild\<close>, is the
  lookup below; no statement of the module assigns to the dictionary.
\<close>

definition initialize_vectorstore ::
  "env \<Rightarrow> state \<Rightarrow> string \<Rightarrow> bool
     \<Rightarrow> (exn + (vectorstore \<times> embeddings) option) \<times> state" where
  "initialize_vectorstore E s subject_name force_rebuild =
     (case (if force_rebuild then None else GLOBAL_VECTORSTORES s subject_name) of
        Some cached \<Rightarrow>
          (case create_embeddings E of
             Inl err \<Rightarrow> (Inl err, s)
           | Inr emb \<Rightarrow> (Inr (Some (cached, emb)), s))
      | None \<Rightarrow>
          (case (if force_rebuild then Inr True
                 else should_rebuild_vectorstore E (disk s) subject_name) of
             Inl err \<Rightarrow> (Inl err, s)
           | Inr rebuild \<Rightarrow>
              (case (if rebuild then build_vectorstore E (disk s) subject_name
                     else load_vectorstore E (disk s) subject_name) of
                 (r, d') \<Rightarrow> (r, s\<lparr>disk := d'\<rparr>))))"



section \<open>Lesson Generator (\<open>rag.py\<close>)\<close>

datatype pace = Low | Moderate | Advance

fun pace_str :: "pace \<Rightarrow> string" where
  "pace_str Low = ''low''"
| "pace_str Moderate = ''moderate''"
| "pace_str Advance = ''advance''"

text \<open>An empty token is as good as none (\<open>if not token\<close>).\<close>

definition initialize_hf_llm :: "env \<Rightarrow> state \<Rightarrow> (exn + llm) \<times> state" where
  "initialize_hf_llm E s =
     (case LLM s of
        Some l \<Rightarrow> (Inr l, s)
      | None \<Rightarrow>
         (case getenv_token E of
            None \<Rightarrow> (Inl EnvironmentError, s)
          | Some token \<Rightarrow>
              if token = [] then (Inl EnvironmentError, s)
              else
                (case new_llm E token of
                   Inl err \<Rightarrow> (Inl err, s)
                 | Inr l \<Rightarrow> (Inr l, s\<lparr>LLM := Some l\<rparr>))))"

definition create_rag_components ::
  "env \<Rightarrow> string \<Rightarrow> vectorstore option \<Rightarrow> llm option \<Rightarrow> components option" where
  "create_rag_components E subject_name vs_opt llm_opt =
     (case vs_opt of
        None \<Rightarrow> None
      | Some vs \<Rightarrow>
         (case llm_opt of
            None \<Rightarrow> None
          | Some l \<Rightarrow>
             (case new_llm_chain E l of
                Inl err \<Rightarrow> None
              | Inr ch \<Rightarrow>
                 (case as_retriever E vs 3 of
                    Inl err \<Rightarrow> None
                  | Inr r \<Rightarrow> Some \<lparr>retriever = Some r, llm_chain = Some ch\<rparr>))))"

text \<open>
  The result is \<open>Inr True\<close> or \<open>Inr False\<close>; every exception of the two calls is caught
  inside. \<open>if vectorstore:\<close> and \<open>if components:\<close> hold for any object that is not \<open>None\<close>.
\<close>

definition load_subject_components :: "env \<Rightarrow> state \<Rightarrow> string \<Rightarrow> (exn + bool) \<times> state" where
  "load_subject_components E s subject_name =
     (case (case LLM s of
              Some l \<Rightarrow> (None, s)
            | None \<Rightarrow>
               (case initialize_hf_llm E s of
                  (Inl err, s1) \<Rightarrow> (Some err, s1)
                | (Inr l, s1) \<Rightarrow> (None, s1))) of
        (Some err, s1) \<Rightarrow> (Inr False, s1)
      | (None, s1) \<Rightarrow>
         (case initialize_vectorstore E s1 subject_name False of
            (Inl err, s2) \<Rightarrow> (Inr False, s2)
          | (Inr None, s2) \<Rightarrow> (Inr False, s2)
          | (Inr (Some (vs, emb)), s2) \<Rightarrow>
             (case create_rag_components E subject_name (Some vs) (LLM s2) of
                None \<Rightarrow> (Inr False, s2)
              | Some comps \<Rightarrow>
                 (Inr True, s2\<lparr>RAG_COMPONENTS := (RAG_COMPONENTS s2)(subject_name \<mapsto> comps)\<rparr>))))"

text \<open>What \<open>generate_lesson\<close> prints, without the decoration.\<close>

datatype log_line =
    Not_initialized string
  | Generating string string string pace
  | Lesson_generated string
  | Generation_error exn

fun join :: "string \<Rightarrow> string list \<Rightarrow> string" where
  "join sep [] = []"
| "join sep [x] = x"
| "join sep (x # y # ys) = x @ sep @ join sep (y # ys)"

text \<open>The \<open>try\<close> block of \<open>generate_lesson\<close>; a method call on \<open>None\<close> is an \<open>AttributeError\<close>.\<close>

definition generate_try ::
  "env \<Rightarrow> components \<Rightarrow> string \<Rightarrow> string \<Rightarrow> string \<Rightarrow> pace \<Rightarrow> exn + string" where
  "generate_try E comps subject_name topic level pc =
     (let retrieval_query =
            ''SSS '' @ level @ '' '' @ subject_name @ '' syllabus content for the topic: '' @ topic
      in case retriever comps of
           None \<Rightarrow> Inl AttributeError
         | Some r \<Rightarrow>
            (case get_relevant_documents E r retrieval_query of
               Inl err \<Rightarrow> Inl err
             | Inr source_documents \<Rightarrow>
                (let context_text =
                       join ([CHR 0x0A] @ ''---'' @ [CHR 0x0A]) (map page_content source_documents);
                     input_data = [(''context'', context_text), (''topic'', topic),
                                   (''level'', level), (''pace'', pace_str pc),
                                   (''subject_name'', subject_name)]
                 in case llm_chain comps of
                      None \<Rightarrow> Inl AttributeError
                    | Some ch \<Rightarrow>
                       (case invoke E ch input_data of
                          Inl err \<Rightarrow> Inl err
                        | Inr result \<Rightarrow>
                           (case map_of result ''text'' of
                              None \<Rightarrow> Inl KeyError
                            | Some lesson_text \<Rightarrow> Inr lesson_text)))))"

text \<open>The value returned (\<open>None\<close> or the lesson text) and the lines printed.\<close>

definition generate_lesson ::
  "env \<Rightarrow> state \<Rightarrow> string \<Rightarrow> string \<Rightarrow> string \<Rightarrow> pace
     \<Rightarrow> (exn + string option) \<times> log_line list" where
  "generate_lesson E s subject_name topic level pc =
     (case RAG_COMPONENTS s subject_name of
        None \<Rightarrow> (Inr None, [Not_initialized subject_name])
      | Some comps \<Rightarrow>
         (case generate_try E comps subject_name topic level pc of
            Inl err \<Rightarrow>
              (Inr None, [Generating subject_name topic level pc, Generation_error err])
          | Inr lesson_text \<Rightarrow>
              (Inr (Some lesson_text),
               [Generating subject_name topic level pc, Lesson_generated lesson_text])))"

section \<open>API Layer (\<open>main.py\<close>)\<close>

datatype sss_level = SSS_1 | SSS_2 | SSS_3

fun level_str :: "sss_level \<Rightarrow> string" where
  "level_str SSS_1 = ''SSS 1''"
| "level_str SSS_2 = ''SSS 2''"
| "level_str SSS_3 = ''SSS 3''"

record LessonRequest =
  req_subject :: string
  req_topic :: string
  req_sss_level :: sss_level
  req_learning_pace :: pace

record LessonResponse =
  res_subject :: string
  res_topic :: string
  res_sss_level :: string
  res_learning_pace :: string
  lesson_notes :: string
  status :: string

text \<open>A handler returns its response model (HTTP 200) or raises \<open>HTTPException\<close>.\<close>

datatype response = Response LessonResponse | HTTPException nat string

fun status_code :: "response \<Rightarrow> nat" where
  "status_code (Response r) = 200"
| "status_code (HTTPException code detail) = code"

text \<open>
  \<open>create_lesson\<close>, with \<open>AVAILABLE_SUBJECTS\<close> as found at import. \<open>str(e)\<close> of an
  exception other than the handler's own is not spelled out in the detail text.
\<close>

definition create_lesson ::
  "env \<Rightarrow> string list \<Rightarrow> state \<Rightarrow> LessonRequest \<Rightarrow> response \<times> state" where
  "create_lesson E AVAILABLE_SUBJECTS s request =
     (if req_subject request \<notin> set AVAILABLE_SUBJECTS then
        (HTTPException 404
           (''Subject '' @ [CHR 0x27] @ req_subject request @ [CHR 0x27] @ '' not found. Available: ''
              @ join '', '' AVAILABLE_SUBJECTS), s)
      else
        (case (if RAG_COMPONENTS s (req_subject request) = None
               then load_subject_components E s (req_subject request)
               else (Inr True, s)) of
           (Inl err, s1) \<Rightarrow>
             (HTTPException 503
                (''Could not initialize '' @ [CHR 0x27] @ req_subject request @ [CHR 0x27]), s1)
         | (Inr success, s1) \<Rightarrow>
             if \<not> success then
               (HTTPException 503
                  (''Could not initialize '' @ [CHR 0x27] @ req_subject request @ [CHR 0x27]
                     @ '': Failed to initialize '' @ req_subject request), s1)
             else
               (case fst (generate_lesson E s1 (req_subject request) (req_topic request)
                            (level_str (req_sss_level request)) (req_learning_pace request)) of
                  Inl err \<Rightarrow> (HTTPException 500 ''Lesson generation failed'', s1)
                | Inr lesson_text \<Rightarrow>
                    (Response
                       \<lparr>res_subject = req_subject request,
                        res_topic = req_topic request,
                        res_sss_level = level_str (req_sss_level request),
                        res_learning_pace = pace_str (req_learning_pace request),
                        lesson_notes =
                          (case lesson_text of
                             None \<Rightarrow> ''Lesson generation completed. Check server logs.''
                           | Some t \<Rightarrow>
                               if t \<noteq> [] then t
                               else ''Lesson generation completed. Check server logs.''),
                        status = ''success''\<rparr>, s1))))"

section \<open>Sample environment and states\<close>

text \<open>An environment in which every collaborator works; the digest is the identity.\<close>

definition sample_env :: env where
  "sample_env =
     \<lparr>hexdigest = (\<lambda>bs. bs),
      json_loads = (\<lambda>text. if text = ''{}'' then Inr (JObj [])
                             else if take 13 text = ''{\"file_hash\":'' then
                               Inr (JObj [(''file_hash'', JStr (drop 13 text))])
                             else Inl JSONDecodeError),
      json_dumps = (\<lambda>j. case dict_get j ''file_hash'' of
                             Inr (JStr h) \<Rightarrow> ''{\"file_hash\":'' @ h
                           | _ \<Rightarrow> ''{}''),
      now_isoformat = ''2025-01-01T00:00:00'',
      pdf_load = (\<lambda>name n. case n of File content \<Rightarrow> Inr [Document content name]
                                     | _ \<Rightarrow> Inl (OtherError ''unreadable'')),
      split_documents = (\<lambda>docs. Inr docs),
      create_embeddings = Inr (HuggingFaceEmbeddings ''BAAI/bge-small-en-v1.5''),
      from_documents = (\<lambda>chunks emb. Inr (FAISS chunks)),
      mkdir = (\<lambda>path. None),
      save_local = (\<lambda>vs f p. Saved ''faiss'' ''pkl''),
      write_text = (\<lambda>path text old. Written),
      load_local = (\<lambda>f p emb. if f = Some ''faiss'' \<and> p = Some ''pkl'' then Inr (FAISS [])
                                 else Inl (OtherError ''corrupt index'')),
      getenv_token = Some ''hf_token'',
      new_llm = (\<lambda>token. Inr (ChatHuggingFace ''mistralai/Mistral-7B-Instruct-v0.3'')),
      new_llm_chain = (\<lambda>l. Inr (LLMChain l)),
      as_retriever = (\<lambda>vs k. Inr (VectorStoreRetriever vs k)),
      get_relevant_documents = (\<lambda>r query. Inr []),
      invoke = (\<lambda>ch input_data. Inr [(''text'', ''A lesson'')])\<rparr>"

text \<open>One subject with one PDF, nothing built yet.\<close>

definition sample_disk :: disk where
  "sample_disk =
     \<lparr>curriculum_root = Some (Dir [(''Mathematics'', Dir [(''algebra.pdf'', File ''x + y'')])]),
      vectorstore_root = (\<lambda>subject_name. no_store)\<rparr>"

definition fresh_state :: state where
  "fresh_state =
     \<lparr>disk = sample_disk, GLOBAL_VECTORSTORES = Map.empty, LLM = None,
      RAG_COMPONENTS = Map.empty\<rparr>"

text \<open>The same process once Mathematics has its components.\<close>

definition ready_state :: state where
  "ready_state =
     fresh_state\<lparr>RAG_COMPONENTS :=
       [''Mathematics'' \<mapsto>
          \<lparr>retriever = Some (VectorStoreRetriever (FAISS []) 3),
           llm_chain = Some (LLMChain (ChatHuggingFace ''mistralai/Mistral-7B-Instruct-v0.3''))\<rparr>]\<rparr>"

definition sample_request :: LessonRequest where
  "sample_request =
     \<lparr>req_subject = ''Mathematics'', req_topic = ''Algebra'', req_sss_level = SSS_1,
      req_learning_pace = Low\<rparr>"

text \<open>The retriever's backend is down.\<close>

definition failing_env :: env where
  "failing_env = sample_env\<lparr>get_relevant_documents := (\<lambda>r query. Inl (OtherError ''timeout''))\<rparr>"

section \<open>Folders of PDF files\<close>

text \<open>
  A qualifying file set: regular files with distinct names that \<open>glob\<close> matches, listed in
  the order the directory enumerates them. \<open>stream\<close> is each file's name followed by its
  bytes; \<open>rewrite\<close> replaces the bytes of one file.
\<close>

definition files :: "(string \<times> bytes) list \<Rightarrow> (string \<times> node) list" where
  "files fs = map (\<lambda>(name, content). (name, File content)) fs"





section \<open>Further sample environments and disks\<close>

text \<open>
  An index file damaged on disk next to metadata that carries the current fingerprint.
\<close>

definition corrupt_disk :: disk where
  "corrupt_disk =
     sample_disk\<lparr>vectorstore_root := (vectorstore_root sample_disk)
       (''Mathematics'' :=
          \<lparr>index_faiss = Some ''garbage'', index_pkl = Some ''pkl'',
           metadata_file = Some ''{\"file_hash\":algebra.pdfx + y''\<rparr>)\<rparr>"

text \<open>
  The disk after a build of Mathematics that went through.
\<close>

definition built_disk :: disk where
  "built_disk =
     sample_disk\<lparr>vectorstore_root := (vectorstore_root sample_disk)
       (''Mathematics'' :=
          \<lparr>index_faiss = Some ''faiss'', index_pkl = Some ''pkl'',
           metadata_file = Some ''{\"file_hash\":algebra.pdfx + y''\<rparr>)\<rparr>"

text \<open>
  \<open>save_local\<close> fails after writing part of \<open>index.faiss\<close>, before it gets to
  \<open>index.pkl\<close>.
\<close>

definition disk_full_env :: env where
  "disk_full_env =
     sample_env\<lparr>save_local :=
       (\<lambda>vs f p. SaveFailed (OtherError ''disk full'') (Some ''partial'') p)\<rparr>"

text \<open>
  The environment variable for the token is not set.
\<close>

definition no_token_env :: env where
  "no_token_env = sample_env\<lparr>getenv_token := None\<rparr>"


section \<open>Notions the properties are stated with\<close>

text \<open>
  The metadata on disk carries the fingerprint of the subject's current files.
\<close>

definition stored_fingerprint_current :: "env \<Rightarrow> disk \<Rightarrow> string \<Rightarrow> bool" where
  "stored_fingerprint_current E d subject_name =
     (case get_folder_hash (hexdigest E) (subject_path d subject_name) of
        Inl err \<Rightarrow> False
      | Inr current_hash \<Rightarrow>
         (case get_metadata E d subject_name of
            Inl err \<Rightarrow> False
          | Inr metadata \<Rightarrow> dict_get metadata ''file_hash'' = Inr (JStr current_hash)))"


text \<open>
  Embedding, index construction and persistence (the steps up to and including
  \<open>save_local\<close>) all went through.
\<close>

definition persisted :: "env \<Rightarrow> disk \<Rightarrow> string \<Rightarrow> document list \<Rightarrow> bool" where
  "persisted E d subject_name text_chunks =
     (case create_embeddings E of
        Inl err \<Rightarrow> False
      | Inr emb \<Rightarrow>
         (case from_documents E text_chunks emb of
            Inl err \<Rightarrow> False
          | Inr vs \<Rightarrow>
             (case mkdir E subject_name of
                Some err \<Rightarrow> False
              | None \<Rightarrow>
                 (case save_local E vs (index_faiss (vectorstore_root d subject_name))
                         (index_pkl (vectorstore_root d subject_name)) of
                    SaveFailed err f p \<Rightarrow> False
                  | Saved f p \<Rightarrow> True))))"

text \<open>
  A component dictionary with a retriever and a chain that are not \<open>None\<close>; the
  invariant of \<open>RAG_COMPONENTS\<close>; the state once \<open>load_subject_components\<close> has made
  sure of the LLM; and the states a process can be in: it starts with empty dictionaries,
  and then runs the three functions below, under any environment, while the files on
  disk may change.
\<close>

definition components_ok :: "components \<Rightarrow> bool" where
  "components_ok comps = (retriever comps \<noteq> None \<and> llm_chain comps \<noteq> None)"

definition rag_invariant :: "state \<Rightarrow> bool" where
  "rag_invariant s =
     (\<forall>subject_name comps. RAG_COMPONENTS s subject_name = Some comps \<longrightarrow> components_ok comps)"

definition after_llm :: "env \<Rightarrow> state \<Rightarrow> state" where
  "after_llm E s = (if LLM s = None then snd (initialize_hf_llm E s) else s)"

inductive reachable :: "state \<Rightarrow> bool" where
  start: "reachable \<lparr>disk = d, GLOBAL_VECTORSTORES = Map.empty, LLM = None,
                     RAG_COMPONENTS = Map.empty\<rparr>"
| llm: "reachable s \<Longrightarrow> reachable (snd (initialize_hf_llm E s))"
| load: "reachable s \<Longrightarrow> reachable (snd (load_subject_components E s subject_name))"
| lesson: "reachable s \<Longrightarrow> reachable (snd (create_lesson E A s request))"
| files: "reachable s \<Longrightarrow> reachable (s\<lparr>disk := d\<rparr>)"

section \<open>Properties of the Content Hasher\<close>

lemma foldl_update_read_chunks: "0 < n \<Longrightarrow> foldl update st (read_chunks n bs) = st @ bs"
proof (induction n bs arbitrary: st rule: read_chunks.induct)
  case (1 n bs)
  show ?case
  proof (cases "bs = []")
    case True
    then show ?thesis by (simp add: read_chunks.simps)
  next
    case False
    with 1 have "foldl update (update st (take n bs)) (read_chunks n (drop n bs)) = update st (take n bs) @ drop n bs"
      by simp
    with False 1(2) show ?thesis
      by (subst read_chunks.simps) (simp add: update_def)
  qed
qed

lemma hash_entry_File: "hash_entry st (name, File content) = Inr (st @ name @ content)"
  by (simp add: foldl_update_read_chunks update_def)




















section \<open>Evaluating the sample builds\<close>

lemma sample_pdfs: "fnmatch_pdf ''algebra.pdf'' \<and> \<not> hidden ''algebra.pdf''"
  by (simp add: fnmatch_pdf_def hidden_def suffix_to_prefix)

lemma sample_subject_path:
  "subject_path sample_disk ''Mathematics'' = Some (Dir [(''algebra.pdf'', File ''x + y'')])"
  by (simp add: subject_path_def sample_disk_def)

lemma sample_hash:
  "get_folder_hash (\<lambda>bs. bs) (Some (Dir [(''algebra.pdf'', File ''x + y'')])) = Inr ''algebra.pdfx + y''"
  by (simp add: get_folder_hash_def hashed_bytes_def sample_pdfs hash_entry_File del: hash_entry.simps)

lemma sample_build:
  "build_vectorstore sample_env sample_disk ''Mathematics'' =
     (Inr (Some (FAISS [Document ''x + y'' ''algebra.pdf''],
                 HuggingFaceEmbeddings ''BAAI/bge-small-en-v1.5'')),
      put_metadata (put_index sample_disk ''Mathematics'' (Some ''faiss'') (Some ''pkl''))
        ''Mathematics'' (Some (''{\"file_hash\":algebra.pdfx + y'')))"
  by (simp add: build_vectorstore_def build_try_def sample_subject_path sample_pdfs sample_hash
      save_metadata_def sample_env_def)

lemma corrupt_subject_path:
  "subject_path corrupt_disk ''Mathematics'' = Some (Dir [(''algebra.pdf'', File ''x + y'')])"
  by (simp add: subject_path_def sample_disk_def corrupt_disk_def)

lemma utf8_valid_ascii: "list_all (\<lambda>c. between 0 c 0x7F) bs \<Longrightarrow> utf8_valid bs"
proof (induction bs rule: utf8_valid.induct)
  case (1 bs)
  show ?case
  proof (cases bs)
    case Nil
    then show ?thesis by (simp add: utf8_valid.simps)
  next
    case (Cons b cs)
    with 1(2) have b: "between 0 b 0x7F" and cs: "list_all (\<lambda>c. between 0 c 0x7F) cs" by simp_all
    from b Cons have "utf8_char bs = Some cs" by (cases cs) simp_all
    with 1(1) Cons cs show ?thesis by (subst utf8_valid.simps) simp
  qed
qed


lemma corrupt_build:
  "build_vectorstore sample_env corrupt_disk ''Mathematics'' =
     (Inr (Some (FAISS [Document ''x + y'' ''algebra.pdf''],
                 HuggingFaceEmbeddings ''BAAI/bge-small-en-v1.5'')),
      put_metadata (put_index corrupt_disk ''Mathematics'' (Some ''faiss'') (Some ''pkl''))
        ''Mathematics'' (Some (''{\"file_hash\":algebra.pdfx + y'')))"
  by (simp add: build_vectorstore_def build_try_def corrupt_subject_path sample_pdfs sample_hash
      save_metadata_def sample_env_def)



lemma built_subject_path:
  "subject_path built_disk ''Mathematics'' = Some (Dir [(''algebra.pdf'', File ''x + y'')])"
  by (simp add: subject_path_def sample_disk_def built_disk_def)

lemma built_metadata:
  "get_metadata sample_env built_disk ''Mathematics'' =
     Inr (JObj [(''file_hash'', JStr ''algebra.pdfx + y'')])"
proof -
  have "utf8_valid ''{\"file_hash\":algebra.pdfx + y''"
    by (rule utf8_valid_ascii) (simp add: between_def)
  then show ?thesis
    by (simp add: get_metadata_def built_disk_def json_load_def read_text_def sample_env_def)
qed


section \<open>Properties of the Cache Metadata Store\<close>

text \<open>
  What \<open>get_metadata\<close> returns: the empty record when there is no file or the text is
  not JSON, the parsed value when it is, and any other exception of the read unchanged.
\<close>

lemma get_metadata_cases:
  "get_metadata E d subject_name =
     (case metadata_file (vectorstore_root d subject_name) of
        None \<Rightarrow> Inr (JObj [])
      | Some bs \<Rightarrow>
         if \<not> utf8_valid bs then Inl UnicodeDecodeError
         else (case json_loads E bs of
                 Inr j \<Rightarrow> Inr j
               | Inl err \<Rightarrow> if err = JSONDecodeError then Inr (JObj []) else Inl err))"
  by (simp add: get_metadata_def json_load_def read_text_def split: option.splits sum.splits)

text \<open>
  C7 fails on a metadata file that is not valid UTF-8, here the single byte \<open>0xFF\<close>:
  decoding raises \<open>UnicodeDecodeError\<close>, which is not a \<open>JSONDecodeError\<close>, so
  \<open>get_metadata\<close> raises instead of returning the empty record, whatever the parser.
\<close>

theorem get_metadata_undecodable_bytes_raise:
  "get_metadata E (put_metadata sample_disk ''Mathematics'' (Some [CHR 0xFF])) ''Mathematics'' =
     Inl UnicodeDecodeError"
proof -
  have "\<not> utf8_valid [CHR 0xFF]"
    by (simp add: utf8_valid.simps between_def)
  then show ?thesis
    by (simp add: get_metadata_cases put_metadata_def)
qed

section \<open>Properties of the Builder\<close>

lemma subject_path_put_index [simp]:
  "subject_path (put_index d subject_name f p) x = subject_path d x"
  by (simp add: subject_path_def put_index_def)

lemma get_metadata_put_index [simp]:
  "get_metadata E (put_index d subject_name f p) x = get_metadata E d x"
  by (simp add: get_metadata_def put_index_def)

lemma gate_accepts_only_current:
  "should_rebuild_vectorstore E d subject_name = Inr False \<Longrightarrow>
     stored_fingerprint_current E d subject_name"
  by (auto simp: should_rebuild_vectorstore_def stored_fingerprint_current_def
      split: if_splits sum.splits)

lemma stored_fingerprint_current_put_index [simp]:
  "stored_fingerprint_current E (put_index d subject_name f p) x = stored_fingerprint_current E d x"
  by (simp add: stored_fingerprint_current_def split: sum.splits)

lemma build_try_not_persisted:
  assumes "\<not> persisted E d subject_name text_chunks"
  shows "\<exists>err d'. build_try E d subject_name all_documents text_chunks = (Inl err, d')
           \<and> (d' = d \<or> (\<exists>f p. d' = put_index d subject_name f p))"
  using assms
  by (auto simp: build_try_def persisted_def split: sum.splits option.splits save_outcome.splits)

text \<open>
  C6, as claimed, fails in its last part. Mathematics has been built, so the metadata
  carries the current fingerprint; a rebuild then fails in \<open>save_local\<close> after part of
  \<open>index.faiss\<close> is written. The build returns the failure result and writes no metadata,
  but the record of the earlier build is still there and still current: the cache gate
  answers that no rebuild is needed, although the index on disk can no longer be loaded.
\<close>

theorem failed_build_beside_current_metadata:
  "\<not> persisted disk_full_env built_disk ''Mathematics'' [Document ''x + y'' ''algebra.pdf'']
   \<and> fst (build_vectorstore disk_full_env built_disk ''Mathematics'') = Inr None
   \<and> metadata_file (vectorstore_root
        (snd (build_vectorstore disk_full_env built_disk ''Mathematics'')) ''Mathematics'') =
       Some ''{\"file_hash\":algebra.pdfx + y''
   \<and> index_faiss (vectorstore_root
        (snd (build_vectorstore disk_full_env built_disk ''Mathematics'')) ''Mathematics'') =
       Some ''partial''
   \<and> should_rebuild_vectorstore disk_full_env
        (snd (build_vectorstore disk_full_env built_disk ''Mathematics'')) ''Mathematics'' =
       Inr False
   \<and> load_try disk_full_env
        (snd (build_vectorstore disk_full_env built_disk ''Mathematics'')) ''Mathematics'' =
       Inl (OtherError ''corrupt index'')"
proof -
  have h: "hexdigest disk_full_env = (\<lambda>bs. bs)"
    by (simp add: disk_full_env_def sample_env_def)
  have b: "build_vectorstore disk_full_env built_disk ''Mathematics'' =
       (Inr None, put_index built_disk ''Mathematics'' (Some ''partial'') (Some ''pkl''))"
    by (simp add: build_vectorstore_def build_try_def built_subject_path sample_pdfs
        disk_full_env_def sample_env_def)
      (simp add: built_disk_def)
  have m: "get_metadata disk_full_env built_disk ''Mathematics'' =
      get_metadata sample_env built_disk ''Mathematics''"
  proof -
    have "json_load disk_full_env = json_load sample_env"
      by (simp add: fun_eq_iff json_load_def disk_full_env_def split: sum.splits)
    then show ?thesis unfolding get_metadata_def by (simp only:)
  qed
  have g: "should_rebuild_vectorstore disk_full_env
      (put_index built_disk ''Mathematics'' (Some ''partial'') (Some ''pkl'')) ''Mathematics'' = Inr False"
    by (simp add: should_rebuild_vectorstore_def h built_subject_path sample_hash m built_metadata)
      (simp add: put_index_def)
  have l: "load_try disk_full_env
      (put_index built_disk ''Mathematics'' (Some ''partial'') (Some ''pkl'')) ''Mathematics'' =
      Inl (OtherError ''corrupt index'')"
    by (simp add: load_try_def disk_full_env_def sample_env_def put_index_def)
  have p: "\<not> persisted disk_full_env built_disk ''Mathematics'' [Document ''x + y'' ''algebra.pdf'']"
    by (simp add: persisted_def disk_full_env_def sample_env_def)
  show ?thesis
    unfolding b using p g l by (simp add: put_index_def built_disk_def)
qed

text \<open>
  C6, amended. When embedding, index construction or persistence raises (and the splitter
  has returned), the build returns the failure result \<open>(None, None)\<close> and the metadata file
  is what it was before: the record is written only after \<open>save_local\<close> has succeeded. So
  after such a failed build the cache gate accepts the stored index only if a record from
  an earlier build already carried the current fingerprint; the failed build itself has
  put no record there to be taken for a valid cache.
\<close>

theorem build_failure_writes_no_metadata:
  assumes "split_documents E
             (load_pdfs E [] (sort_key fst (glob_pdf (subject_path d subject_name)))) =
           Inr text_chunks"
    and "\<not> persisted E d subject_name text_chunks"
    and "build_vectorstore E d subject_name = (result, d')"
  shows "result = Inr None
    \<and> metadata_file (vectorstore_root d' subject_name) =
       metadata_file (vectorstore_root d subject_name)
    \<and> get_metadata E d' subject_name = get_metadata E d subject_name
    \<and> (should_rebuild_vectorstore E d' subject_name = Inr False \<longrightarrow>
         stored_fingerprint_current E d subject_name)"
proof -
  let ?docs = "load_pdfs E [] (sort_key fst (glob_pdf (subject_path d subject_name)))"
  obtain err d1 where bt: "build_try E d subject_name ?docs text_chunks = (Inl err, d1)"
    and d1: "d1 = d \<or> (\<exists>f p. d1 = put_index d subject_name f p)"
    using build_try_not_persisted [OF assms(2)] by blast
  have "result = Inr None \<and> (d' = d \<or> d' = d1)"
    using assms(1,3) bt by (auto simp: build_vectorstore_def Let_def split: if_splits)
  with d1 have "result = Inr None \<and> (d' = d \<or> (\<exists>f p. d' = put_index d subject_name f p))"
    by blast
  moreover have "metadata_file (vectorstore_root (put_index d subject_name f p) subject_name) =
      metadata_file (vectorstore_root d subject_name)" for f p
    by (simp add: put_index_def)
  ultimately show ?thesis
    using gate_accepts_only_current [of E d' subject_name] by auto
qed

text \<open>
  C6, amended, at a first build whose \<open>save_local\<close> fails after writing part of the
  index: no metadata appears, and the gate asks for a rebuild.
\<close>

theorem build_failure_writes_no_metadata_witness:
  "split_documents disk_full_env
     (load_pdfs disk_full_env [] (sort_key fst (glob_pdf (subject_path sample_disk ''Mathematics'')))) =
     Inr [Document ''x + y'' ''algebra.pdf'']
   \<and> \<not> persisted disk_full_env sample_disk ''Mathematics'' [Document ''x + y'' ''algebra.pdf'']
   \<and> build_vectorstore disk_full_env sample_disk ''Mathematics'' =
       (Inr None, put_index sample_disk ''Mathematics'' (Some ''partial'') None)
   \<and> metadata_file (vectorstore_root
        (put_index sample_disk ''Mathematics'' (Some ''partial'') None) ''Mathematics'') = None
   \<and> should_rebuild_vectorstore disk_full_env
        (put_index sample_disk ''Mathematics'' (Some ''partial'') None) ''Mathematics'' = Inr True"
proof -
  have a: "split_documents disk_full_env
     (load_pdfs disk_full_env [] (sort_key fst (glob_pdf (subject_path sample_disk ''Mathematics'')))) =
     Inr [Document ''x + y'' ''algebra.pdf'']"
    by (simp add: sample_subject_path sample_pdfs disk_full_env_def sample_env_def)
  have b: "\<not> persisted disk_full_env sample_disk ''Mathematics'' [Document ''x + y'' ''algebra.pdf'']"
    by (simp add: persisted_def disk_full_env_def sample_env_def)
  have c: "build_vectorstore disk_full_env sample_disk ''Mathematics'' =
       (Inr None, put_index sample_disk ''Mathematics'' (Some ''partial'') None)"
    by (simp add: build_vectorstore_def build_try_def sample_subject_path sample_pdfs
        disk_full_env_def sample_env_def)
      (simp add: sample_disk_def no_store_def)
  have d: "should_rebuild_vectorstore disk_full_env
        (put_index sample_disk ''Mathematics'' (Some ''partial'') None) ''Mathematics'' = Inr True"
    by (simp add: should_rebuild_vectorstore_def put_index_def)
  from build_failure_writes_no_metadata [OF a b c] a b c d show ?thesis
    by (simp add: sample_disk_def no_store_def)
qed

section \<open>Properties of the Loader and the Cache Gate\<close>

text \<open>
  C8. Whenever the index file is missing, or creating the embeddings, \<open>FAISS.load_local\<close>
  or anything else in the loader's \<open>try\<close> block raises, \<open>load_vectorstore\<close> returns what
  \<open>build_vectorstore\<close> returns, not the error; when the load succeeds it returns the
  loaded index and leaves the disk alone.
\<close>

theorem load_vectorstore_falls_back:
  "(index_faiss (vectorstore_root d subject_name) = None \<longrightarrow>
      load_vectorstore E d subject_name = build_vectorstore E d subject_name)
   \<and> (\<forall>err. create_embeddings E = Inl err \<longrightarrow>
      load_vectorstore E d subject_name = build_vectorstore E d subject_name)
   \<and> (\<forall>emb err. create_embeddings E = Inr emb
         \<and> load_local E (index_faiss (vectorstore_root d subject_name))
             (index_pkl (vectorstore_root d subject_name)) emb = Inl err \<longrightarrow>
      load_vectorstore E d subject_name = build_vectorstore E d subject_name)
   \<and> (\<forall>err. load_try E d subject_name = Inl err \<longrightarrow>
      load_vectorstore E d subject_name = build_vectorstore E d subject_name)
   \<and> (\<forall>r. index_faiss (vectorstore_root d subject_name) \<noteq> None
         \<and> load_try E d subject_name = Inr r \<longrightarrow>
      load_vectorstore E d subject_name = (Inr (Some r), d))"
  by (auto simp: load_vectorstore_def load_try_def)

text \<open>
  C8, at a damaged index file: the loader raises and the builder's result comes back.
\<close>

theorem load_vectorstore_falls_back_witness:
  "load_local sample_env (index_faiss (vectorstore_root corrupt_disk ''Mathematics''))
      (index_pkl (vectorstore_root corrupt_disk ''Mathematics''))
      (HuggingFaceEmbeddings ''BAAI/bge-small-en-v1.5'') = Inl (OtherError ''corrupt index'')
   \<and> load_vectorstore sample_env corrupt_disk ''Mathematics'' =
       build_vectorstore sample_env corrupt_disk ''Mathematics''
   \<and> fst (load_vectorstore sample_env corrupt_disk ''Mathematics'') =
       Inr (Some (FAISS [Document ''x + y'' ''algebra.pdf''],
                  HuggingFaceEmbeddings ''BAAI/bge-small-en-v1.5''))"
proof -
  have e: "create_embeddings sample_env = Inr (HuggingFaceEmbeddings ''BAAI/bge-small-en-v1.5'')"
    by (simp add: sample_env_def)
  have l: "load_local sample_env (index_faiss (vectorstore_root corrupt_disk ''Mathematics''))
      (index_pkl (vectorstore_root corrupt_disk ''Mathematics''))
      (HuggingFaceEmbeddings ''BAAI/bge-small-en-v1.5'') = Inl (OtherError ''corrupt index'')"
    by (simp add: sample_env_def corrupt_disk_def)
  from e l load_vectorstore_falls_back [of corrupt_disk "''Mathematics''" sample_env]
  have "load_vectorstore sample_env corrupt_disk ''Mathematics'' =
       build_vectorstore sample_env corrupt_disk ''Mathematics''"
    by blast
  with l show ?thesis by (simp add: corrupt_build)
qed

lemma present_gate:
  assumes "index_faiss (vectorstore_root d subject_name) \<noteq> None"
    and "index_pkl (vectorstore_root d subject_name) \<noteq> None"
    and "get_folder_hash (hexdigest E) (subject_path d subject_name) = Inr h"
    and "get_metadata E d subject_name = Inr m"
    and "dict_get m ''file_hash'' = Inr v"
  shows "should_rebuild_vectorstore E d subject_name = Inr (v \<noteq> JStr h)"
  using assms by (auto simp: should_rebuild_vectorstore_def)




lemma initialize_keeps_cache:
  "GLOBAL_VECTORSTORES (snd (initialize_vectorstore E s subject_name force_rebuild)) =
   GLOBAL_VECTORSTORES s"
  by (auto simp: initialize_vectorstore_def split: option.splits sum.splits prod.splits)

text \<open>
  C2 fails: \<open>initialize_vectorstore\<close> never stores into \<open>GLOBAL_VECTORSTORES\<close>. Here the
  first call for Mathematics builds the index and returns it, and the dictionary still
  has no entry for Mathematics afterwards, so the next call goes through the cache gate
  and the disk again.
\<close>

theorem initialize_vectorstore_stores_nothing:
  "fst (initialize_vectorstore sample_env fresh_state ''Mathematics'' False) =
     Inr (Some (FAISS [Document ''x + y'' ''algebra.pdf''],
                HuggingFaceEmbeddings ''BAAI/bge-small-en-v1.5''))
   \<and> GLOBAL_VECTORSTORES (snd (initialize_vectorstore sample_env fresh_state ''Mathematics'' False))
        ''Mathematics'' = None"
proof -
  have "should_rebuild_vectorstore sample_env sample_disk ''Mathematics'' = Inr True"
    by (simp add: should_rebuild_vectorstore_def sample_disk_def no_store_def)
  then show ?thesis
    by (simp add: initialize_vectorstore_def fresh_state_def sample_build)
qed

section \<open>Subject discovery\<close>



section \<open>Properties of the Lesson Generator\<close>

text \<open>
  C4, as claimed, fails: called for a subject without components, and called for a
  subject whose retriever raises, \<open>generate_lesson\<close> returns the same value, \<open>None\<close>.
\<close>

theorem generate_lesson_failures_alike:
  "RAG_COMPONENTS fresh_state ''Mathematics'' = None
   \<and> RAG_COMPONENTS ready_state ''Mathematics'' =
       Some \<lparr>retriever = Some (VectorStoreRetriever (FAISS []) 3),
             llm_chain = Some (LLMChain (ChatHuggingFace ''mistralai/Mistral-7B-Instruct-v0.3''))\<rparr>
   \<and> generate_try failing_env
       \<lparr>retriever = Some (VectorStoreRetriever (FAISS []) 3),
        llm_chain = Some (LLMChain (ChatHuggingFace ''mistralai/Mistral-7B-Instruct-v0.3''))\<rparr>
       ''Mathematics'' ''Algebra'' ''SSS 1'' Low = Inl (OtherError ''timeout'')
   \<and> fst (generate_lesson failing_env fresh_state ''Mathematics'' ''Algebra'' ''SSS 1'' Low) =
      fst (generate_lesson failing_env ready_state ''Mathematics'' ''Algebra'' ''SSS 1'' Low)"
  by (simp add: generate_lesson_def generate_try_def failing_env_def sample_env_def
      ready_state_def fresh_state_def)

text \<open>
  C4, amended. \<open>generate_lesson\<close> returns \<open>None\<close> both when the subject has no
  components and when retrieval or generation raises; the caller cannot tell the two
  apart from the result. They differ in what is printed: the first prints that the
  system is not initialized, the second the start of the generation and the error.
\<close>

theorem generate_lesson_failure_signals:
  "(RAG_COMPONENTS s subject_name = None \<longrightarrow>
      generate_lesson E s subject_name topic level pc =
        (Inr None, [Not_initialized subject_name]))
   \<and> (\<forall>comps err. RAG_COMPONENTS s subject_name = Some comps
          \<and> generate_try E comps subject_name topic level pc = Inl err \<longrightarrow>
      generate_lesson E s subject_name topic level pc =
        (Inr None, [Generating subject_name topic level pc, Generation_error err]))"
  by (simp add: generate_lesson_def)

text \<open>
  C4, amended, at the two failures.
\<close>

theorem generate_lesson_failure_signals_witness:
  "generate_lesson failing_env fresh_state ''Mathematics'' ''Algebra'' ''SSS 1'' Low =
     (Inr None, [Not_initialized ''Mathematics''])
   \<and> generate_lesson failing_env ready_state ''Mathematics'' ''Algebra'' ''SSS 1'' Low =
     (Inr None, [Generating ''Mathematics'' ''Algebra'' ''SSS 1'' Low,
                 Generation_error (OtherError ''timeout'')])"
proof -
  have a: "RAG_COMPONENTS fresh_state ''Mathematics'' = None"
    by (simp add: fresh_state_def)
  have b: "RAG_COMPONENTS ready_state ''Mathematics'' =
       Some \<lparr>retriever = Some (VectorStoreRetriever (FAISS []) 3),
             llm_chain = Some (LLMChain (ChatHuggingFace ''mistralai/Mistral-7B-Instruct-v0.3''))\<rparr>"
    by (simp add: ready_state_def)
  have c: "generate_try failing_env
       \<lparr>retriever = Some (VectorStoreRetriever (FAISS []) 3),
        llm_chain = Some (LLMChain (ChatHuggingFace ''mistralai/Mistral-7B-Instruct-v0.3''))\<rparr>
       ''Mathematics'' ''Algebra'' ''SSS 1'' Low = Inl (OtherError ''timeout'')"
    by (simp add: generate_try_def failing_env_def sample_env_def)
  from a generate_lesson_failure_signals [of fresh_state "''Mathematics''" failing_env
      "''Algebra''" "''SSS 1''" Low]
  have "generate_lesson failing_env fresh_state ''Mathematics'' ''Algebra'' ''SSS 1'' Low =
     (Inr None, [Not_initialized ''Mathematics''])"
    by blast
  moreover from b c generate_lesson_failure_signals [of ready_state "''Mathematics''" failing_env
      "''Algebra''" "''SSS 1''" Low]
  have "generate_lesson failing_env ready_state ''Mathematics'' ''Algebra'' ''SSS 1'' Low =
     (Inr None, [Generating ''Mathematics'' ''Algebra'' ''SSS 1'' Low,
                 Generation_error (OtherError ''timeout'')])"
    by blast
  ultimately show ?thesis by blast
qed

lemma create_rag_components_ok:
  "create_rag_components E subject_name vs_opt llm_opt = Some comps \<Longrightarrow> components_ok comps"
  by (auto simp: create_rag_components_def components_ok_def split: option.splits sum.splits)

lemma initialize_hf_llm_components [simp]:
  "RAG_COMPONENTS (snd (initialize_hf_llm E s)) = RAG_COMPONENTS s"
  by (auto simp: initialize_hf_llm_def split: option.splits sum.splits)

lemma initialize_hf_llm_ok:
  "initialize_hf_llm E s = (Inr l, s') \<Longrightarrow> LLM s' = Some l"
  by (auto simp: initialize_hf_llm_def split: option.splits sum.splits if_splits)

lemma initialize_vectorstore_components [simp]:
  "RAG_COMPONENTS (snd (initialize_vectorstore E s subject_name force_rebuild)) = RAG_COMPONENTS s"
  by (auto simp: initialize_vectorstore_def split: option.splits sum.splits prod.splits)

lemma initialize_vectorstore_llm [simp]:
  "LLM (snd (initialize_vectorstore E s subject_name force_rebuild)) = LLM s"
  by (auto simp: initialize_vectorstore_def split: option.splits sum.splits prod.splits)

lemma load_subject_components_unfold:
  "load_subject_components E s subject_name =
     (if LLM (after_llm E s) = None then (Inr False, after_llm E s)
      else
        (case initialize_vectorstore E (after_llm E s) subject_name False of
           (Inr (Some (vs, emb)), s2) \<Rightarrow>
             (case create_rag_components E subject_name (Some vs) (LLM s2) of
                None \<Rightarrow> (Inr False, s2)
              | Some comps \<Rightarrow>
                 (Inr True, s2\<lparr>RAG_COMPONENTS := (RAG_COMPONENTS s2)(subject_name \<mapsto> comps)\<rparr>))
         | (r, s2) \<Rightarrow> (Inr False, s2)))"
  by (auto simp: load_subject_components_def after_llm_def initialize_hf_llm_def
      split: option.splits sum.splits prod.splits)

lemma after_llm_components [simp]: "RAG_COMPONENTS (after_llm E s) = RAG_COMPONENTS s"
  by (simp add: after_llm_def)

lemma load_subject_components_result:
  assumes "load_subject_components E s subject_name = (r, s')"
  shows "(r = Inr True \<or> r = Inr False)
    \<and> (r = Inr True \<longrightarrow>
         LLM (after_llm E s) \<noteq> None
         \<and> (\<exists>vs emb comps.
              fst (initialize_vectorstore E (after_llm E s) subject_name False) = Inr (Some (vs, emb))
              \<and> create_rag_components E subject_name (Some vs) (LLM (after_llm E s)) = Some comps
              \<and> components_ok comps
              \<and> RAG_COMPONENTS s' = (RAG_COMPONENTS s)(subject_name \<mapsto> comps)))
    \<and> (r = Inr False \<longrightarrow> RAG_COMPONENTS s' = RAG_COMPONENTS s)"
proof -
  obtain r2 s2 where i: "initialize_vectorstore E (after_llm E s) subject_name False = (r2, s2)"
    by (cases "initialize_vectorstore E (after_llm E s) subject_name False")
  then have c: "RAG_COMPONENTS s2 = RAG_COMPONENTS s" and l: "LLM s2 = LLM (after_llm E s)"
    using initialize_vectorstore_components [of E "after_llm E s" subject_name False]
      initialize_vectorstore_llm [of E "after_llm E s" subject_name False]
    by simp_all
  show ?thesis
    using assms i c l
    by (auto simp: load_subject_components_unfold create_rag_components_ok
        split: if_splits sum.splits option.splits prod.splits)
qed

lemma load_subject_components_invariant:
  assumes "rag_invariant s"
  shows "rag_invariant (snd (load_subject_components E s subject_name))"
proof -
  obtain r s' where l: "load_subject_components E s subject_name = (r, s')"
    by (cases "load_subject_components E s subject_name")
  from load_subject_components_result [OF l] assms show ?thesis
    unfolding l by (auto simp: rag_invariant_def split: if_splits)
qed

lemma create_lesson_state:
  "snd (create_lesson E A s request) = s
   \<or> snd (create_lesson E A s request) = snd (load_subject_components E s (req_subject request))"
  by (auto simp: create_lesson_def split: prod.splits sum.splits)

lemma reachable_invariant: "reachable s \<Longrightarrow> rag_invariant s"
proof (induction rule: reachable.induct)
  case (start d)
  show ?case by (simp add: rag_invariant_def)
next
  case (llm s E)
  then show ?case by (simp add: rag_invariant_def)
next
  case (load s E subject_name)
  then show ?case by (simp add: load_subject_components_invariant)
next
  case (lesson s E A request)
  with create_lesson_state [of E A s request] show ?case
    by (auto simp: load_subject_components_invariant)
next
  case (files s d)
  then show ?case by (simp add: rag_invariant_def)
qed

text \<open>
  C9. In every state the process can reach, each entry of \<open>RAG_COMPONENTS\<close> has a
  retriever and a chain that are not \<open>None\<close>. \<open>load_subject_components\<close> keeps that
  invariant and returns \<open>True\<close> or \<open>False\<close>: on \<open>True\<close> the LLM is initialized, the
  vectorstore initialization returned a vectorstore, the component creation returned the
  components, and these are the entry stored for the subject; on \<open>False\<close> the dictionary
  is what it was.
\<close>

theorem rag_components_invariant:
  assumes "load_subject_components E s subject_name = (r, s')"
  shows "(\<forall>s0. reachable s0 \<longrightarrow> rag_invariant s0)
    \<and> (rag_invariant s \<longrightarrow> rag_invariant s')
    \<and> (r = Inr True \<or> r = Inr False)
    \<and> (r = Inr True \<longrightarrow>
         LLM (after_llm E s) \<noteq> None
         \<and> (\<exists>vs emb comps.
              fst (initialize_vectorstore E (after_llm E s) subject_name False) = Inr (Some (vs, emb))
              \<and> create_rag_components E subject_name (Some vs) (LLM (after_llm E s)) = Some comps
              \<and> components_ok comps
              \<and> RAG_COMPONENTS s' = (RAG_COMPONENTS s)(subject_name \<mapsto> comps)))
    \<and> (r = Inr False \<longrightarrow> RAG_COMPONENTS s' = RAG_COMPONENTS s)"
  using load_subject_components_result [OF assms]
    load_subject_components_invariant [of s E subject_name] assms
  by (simp add: reachable_invariant)

lemma sample_load:
  "load_subject_components sample_env fresh_state ''Mathematics'' =
     (Inr True,
      fresh_state\<lparr>LLM := Some (ChatHuggingFace ''mistralai/Mistral-7B-Instruct-v0.3''),
        disk := put_metadata (put_index sample_disk ''Mathematics'' (Some ''faiss'') (Some ''pkl''))
          ''Mathematics'' (Some (''{\"file_hash\":algebra.pdfx + y'')),
        RAG_COMPONENTS := [''Mathematics'' \<mapsto>
          \<lparr>retriever = Some (VectorStoreRetriever (FAISS [Document ''x + y'' ''algebra.pdf'']) 3),
           llm_chain = Some (LLMChain (ChatHuggingFace ''mistralai/Mistral-7B-Instruct-v0.3''))\<rparr>]\<rparr>)"
proof -
  have "should_rebuild_vectorstore sample_env sample_disk ''Mathematics'' = Inr True"
    by (simp add: should_rebuild_vectorstore_def sample_disk_def no_store_def)
  then have "initialize_vectorstore sample_env
      (fresh_state\<lparr>LLM := Some (ChatHuggingFace ''mistralai/Mistral-7B-Instruct-v0.3'')\<rparr>)
      ''Mathematics'' False =
    (Inr (Some (FAISS [Document ''x + y'' ''algebra.pdf''],
                 HuggingFaceEmbeddings ''BAAI/bge-small-en-v1.5'')),
     fresh_state\<lparr>LLM := Some (ChatHuggingFace ''mistralai/Mistral-7B-Instruct-v0.3''),
        disk := put_metadata (put_index sample_disk ''Mathematics'' (Some ''faiss'') (Some ''pkl''))
          ''Mathematics'' (Some (''{\"file_hash\":algebra.pdfx + y''))\<rparr>)"
    by (simp add: initialize_vectorstore_def fresh_state_def sample_build)
  moreover have "initialize_hf_llm sample_env fresh_state =
      (Inr (ChatHuggingFace ''mistralai/Mistral-7B-Instruct-v0.3''),
       fresh_state\<lparr>LLM := Some (ChatHuggingFace ''mistralai/Mistral-7B-Instruct-v0.3'')\<rparr>)"
    by (simp add: initialize_hf_llm_def fresh_state_def sample_env_def)
  moreover have "LLM fresh_state = None" by (simp add: fresh_state_def)
  ultimately show ?thesis
    by (simp add: load_subject_components_def)
      (simp add: create_rag_components_def sample_env_def fresh_state_def)
qed

text \<open>
  C9, at a first load that succeeds, and at one that fails for want of a token.
\<close>

theorem rag_components_invariant_witness:
  "load_subject_components sample_env fresh_state ''Mathematics'' =
     (Inr True, snd (load_subject_components sample_env fresh_state ''Mathematics''))
   \<and> reachable (snd (load_subject_components sample_env fresh_state ''Mathematics''))
   \<and> rag_invariant fresh_state
   \<and> rag_invariant (snd (load_subject_components sample_env fresh_state ''Mathematics''))
   \<and> LLM (after_llm sample_env fresh_state) \<noteq> None
   \<and> RAG_COMPONENTS (snd (load_subject_components sample_env fresh_state ''Mathematics''))
        ''Mathematics'' =
      Some \<lparr>retriever = Some (VectorStoreRetriever (FAISS [Document ''x + y'' ''algebra.pdf'']) 3),
            llm_chain = Some (LLMChain (ChatHuggingFace ''mistralai/Mistral-7B-Instruct-v0.3''))\<rparr>
   \<and> load_subject_components no_token_env fresh_state ''Mathematics'' = (Inr False, fresh_state)
   \<and> RAG_COMPONENTS (snd (load_subject_components no_token_env fresh_state ''Mathematics'')) =
       RAG_COMPONENTS fresh_state"
proof -
  have a: "load_subject_components sample_env fresh_state ''Mathematics'' =
     (Inr True, snd (load_subject_components sample_env fresh_state ''Mathematics''))"
    by (simp add: sample_load)
  have b: "rag_invariant fresh_state"
    by (simp add: rag_invariant_def fresh_state_def)
  have "reachable fresh_state"
    unfolding fresh_state_def by (rule reachable.start)
  then have r: "reachable (snd (load_subject_components sample_env fresh_state ''Mathematics''))"
    by (rule reachable.load)
  note t = rag_components_invariant [OF a]
  from t r have c: "rag_invariant (snd (load_subject_components sample_env fresh_state ''Mathematics''))"
    by blast
  from t have d: "LLM (after_llm sample_env fresh_state) \<noteq> None"
    by blast
  have e: "load_subject_components no_token_env fresh_state ''Mathematics'' =
      (Inr False, fresh_state)"
    by (simp add: load_subject_components_def initialize_hf_llm_def fresh_state_def
        no_token_env_def sample_env_def)
  from rag_components_invariant [OF e]
  have f: "RAG_COMPONENTS (snd (load_subject_components no_token_env fresh_state ''Mathematics'')) =
       RAG_COMPONENTS fresh_state"
    by (simp add: e)
  show ?thesis
    using a b c d e f r by (simp add: sample_load)
qed

section \<open>Properties of the API Layer\<close>

lemma generate_lesson_no_raise:
  "fst (generate_lesson E s subject_name topic level pc) \<noteq> Inl err"
  by (auto simp: generate_lesson_def split: option.splits sum.splits)

lemma create_lesson_never_500: "status_code (fst (create_lesson E A s request)) \<noteq> 500"
  by (auto simp: create_lesson_def generate_lesson_no_raise split: prod.splits sum.splits)

lemma generation_failure_is_success_response:
  assumes "req_subject request \<in> set A"
    and "RAG_COMPONENTS s (req_subject request) = Some comps"
    and "generate_try E comps (req_subject request) (req_topic request)
           (level_str (req_sss_level request)) (req_learning_pace request) = Inl err"
  shows "\<exists>r. fst (create_lesson E A s request) = Response r
           \<and> lesson_notes r = ''Lesson generation completed. Check server logs.''
           \<and> status r = ''success''"
  using assms by (simp add: create_lesson_def generate_lesson_def)

text \<open>
  C1 fails: for a known subject whose components are loaded, with a retriever that
  raises, \<open>generate_lesson\<close> catches the exception and returns \<open>None\<close>, and
  \<open>create_lesson\<close> answers 200 with status \<open>success\<close> and a placeholder text, not 500.
\<close>

theorem create_lesson_generation_failure_200:
  "generate_try failing_env
      \<lparr>retriever = Some (VectorStoreRetriever (FAISS []) 3),
       llm_chain = Some (LLMChain (ChatHuggingFace ''mistralai/Mistral-7B-Instruct-v0.3''))\<rparr>
      ''Mathematics'' ''Algebra'' ''SSS 1'' Low = Inl (OtherError ''timeout'')
   \<and> fst (create_lesson failing_env [''Mathematics''] ready_state sample_request) =
      Response \<lparr>res_subject = ''Mathematics'', res_topic = ''Algebra'',
                res_sss_level = ''SSS 1'', res_learning_pace = ''low'',
                lesson_notes = ''Lesson generation completed. Check server logs.'',
                status = ''success''\<rparr>
   \<and> status_code (fst (create_lesson failing_env [''Mathematics''] ready_state sample_request)) = 200"
  by (simp add: create_lesson_def generate_lesson_def generate_try_def failing_env_def
      sample_env_def ready_state_def fresh_state_def sample_request_def)

end
